theory Spec2Isabelle
  imports Complex_Main
begin

section \<open>Numbers, dates and the data model\<close>

text \<open>
  The line chart of \<^verbatim>\<open>app.component.ts\<close> (the responsive component) and of
  \<^verbatim>\<open>unnamed/part_000\<close> (the fixed-size component) computes on JavaScript numbers.
  They are modelled as \<^typ>\<open>real\<close>: arithmetic is exact, and a computation that would
  leave the finite numbers (a division by zero, the \<^verbatim>\<open>undefined\<close> extent of an empty
  array) is a \<open>None\<close> branch of the model. A \<^verbatim>\<open>Date\<close> is its millisecond timestamp, an
  \<^typ>\<open>int\<close>; all timestamps are taken to lie in the range a \<^verbatim>\<open>Date\<close> can hold.
\<close>

text \<open>\<^verbatim>\<open>LineChartDataItem\<close> of \<^verbatim>\<open>line-chart.ts\<close>; \<open>date\<close> is the timestamp
  \<^verbatim>\<open>new Date(d.date)\<close> yields, \<open>val\<close> the field \<^verbatim>\<open>value\<close>.\<close>

record LineChartDataItem =
  date :: int
  val :: real

text \<open>The \<^verbatim>\<open>margin\<close> object and \<^verbatim>\<open>dzHeight\<close>, the same in both components.\<close>

definition margin_top :: real where "margin_top = 8"
definition margin_right :: real where "margin_right = 8"
definition margin_bottom :: real where "margin_bottom = 32"
definition margin_left :: real where "margin_left = 32"
definition dzHeight :: real where "dzHeight = 40"

section \<open>The d3 functions the components call\<close>

subsection \<open>\<^verbatim>\<open>d3.extent\<close>\<close>

text \<open>
  The loop of \<^verbatim>\<open>d3.extent(values, valueof)\<close>: the first value sets both bounds, every
  later one lowers \<^verbatim>\<open>min\<close> or raises \<^verbatim>\<open>max\<close>; an empty array leaves both
  \<^verbatim>\<open>undefined\<close> (\<open>None\<close>).
\<close>

fun extent_loop :: "('a::linorder \<times> 'a) option \<Rightarrow> 'a list \<Rightarrow> ('a \<times> 'a) option" where
  "extent_loop acc [] = acc"
| "extent_loop None (v # vs) = extent_loop (Some (v, v)) vs"
| "extent_loop (Some (mn, mx)) (v # vs) =
     extent_loop (Some (if mn > v then v else mn, if mx < v then v else mx)) vs"

definition extent :: "'a::linorder list \<Rightarrow> ('a \<times> 'a) option" where
  "extent vs = extent_loop None vs"

subsection \<open>\<^verbatim>\<open>d3.bisector(f).left\<close> and \<^verbatim>\<open>Array.prototype.slice\<close>\<close>

text \<open>
  The binary search of \<^verbatim>\<open>bisector((d) => new Date(d.date)).left(a, x, lo)\<close> with
  \<^verbatim>\<open>hi = a.length\<close>: \<^verbatim>\<open>mid = (lo + hi) >>> 1\<close>, and \<^verbatim>\<open>lo = mid + 1\<close> when the date at
  \<^verbatim>\<open>mid\<close> is below \<^verbatim>\<open>x\<close>, else \<^verbatim>\<open>hi = mid\<close>.
\<close>

function bisect_loop :: "LineChartDataItem list \<Rightarrow> int \<Rightarrow> nat \<Rightarrow> nat \<Rightarrow> nat" where
  "bisect_loop a x lo hi =
     (if lo < hi then
        (let mid = (lo + hi) div 2
         in if date (a ! mid) < x then bisect_loop a x (mid + 1) hi
            else bisect_loop a x lo mid)
      else lo)"
  by pat_completeness auto
termination
  by (relation "measure (\<lambda>(a, x, lo, hi). hi - lo)") auto

declare bisect_loop.simps [simp del]

text \<open>
  The searched value is \<open>None\<close> when it is not a number (the domain of a scale that is
  not finite): then \<^verbatim>\<open>compare1(x, x) !== 0\<close> and \<^verbatim>\<open>left\<close> returns \<^verbatim>\<open>hi\<close>.
\<close>

definition bisector_left :: "LineChartDataItem list \<Rightarrow> int option \<Rightarrow> nat \<Rightarrow> nat" where
  "bisector_left a x lo =
     (if lo < length a then
        (case x of None \<Rightarrow> length a | Some v \<Rightarrow> bisect_loop a v lo (length a))
      else lo)"

definition slice :: "'a list \<Rightarrow> nat \<Rightarrow> nat \<Rightarrow> 'a list" where
  "slice a i0 i1 = take (i1 - i0) (drop i0 a)"

subsection \<open>\<^verbatim>\<open>d3.zoomIdentity\<close> and the transform's methods\<close>

text \<open>A \<^verbatim>\<open>ZoomTransform\<close> with its fields \<^verbatim>\<open>k\<close>, \<^verbatim>\<open>x\<close>, \<^verbatim>\<open>y\<close>.\<close>

record ZoomTransform =
  zk :: real
  zx :: real
  zy :: real

definition zoomIdentity :: ZoomTransform where
  "zoomIdentity = \<lparr>zk = 1, zx = 0, zy = 0\<rparr>"

definition translate :: "ZoomTransform \<Rightarrow> real \<Rightarrow> real \<Rightarrow> ZoomTransform" where
  "translate t x y =
     (if x = 0 \<and> y = 0 then t
      else \<lparr>zk = zk t, zx = zx t + zk t * x, zy = zy t + zk t * y\<rparr>)"

definition scale :: "ZoomTransform \<Rightarrow> real \<Rightarrow> ZoomTransform" where
  "scale t k = (if k = 1 then t else \<lparr>zk = zk t * k, zx = zx t, zy = zy t\<rparr>)"

text \<open>\<^verbatim>\<open>invertX(x) = (x - this.x) / this.k\<close>; with \<^verbatim>\<open>k = 0\<close> the quotient is not finite.\<close>

definition invertX :: "ZoomTransform \<Rightarrow> real \<Rightarrow> real option" where
  "invertX t x = (if zk t = 0 then None else Some ((x - zx t) / zk t))"

subsection \<open>\<^verbatim>\<open>d3.scaleUtc\<close>\<close>

text \<open>
  A time scale with a two-point domain (timestamps) and a two-point range (pixels).
  \<^verbatim>\<open>normalize\<close>, \<^verbatim>\<open>interpolateNumber\<close> and \<^verbatim>\<open>bimap\<close> are those of d3's continuous
  scale: a domain of width zero is mapped to the middle of the range.
\<close>

record TimeScale =
  domain0 :: int
  domain1 :: int
  range0 :: real
  range1 :: real

definition normalize_d3 :: "real \<Rightarrow> real \<Rightarrow> real \<Rightarrow> real" where
  "normalize_d3 a b x = (if b - a = 0 then 1 / 2 else (x - a) / (b - a))"

definition interpolateNumber :: "real \<Rightarrow> real \<Rightarrow> real \<Rightarrow> real" where
  "interpolateNumber a b t = a * (1 - t) + b * t"

definition bimap :: "real \<Rightarrow> real \<Rightarrow> real \<Rightarrow> real \<Rightarrow> real \<Rightarrow> real" where
  "bimap d0 d1 r0 r1 x =
     (if d1 < d0 then interpolateNumber r1 r0 (normalize_d3 d1 d0 x)
      else interpolateNumber r0 r1 (normalize_d3 d0 d1 x))"

text \<open>\<^verbatim>\<open>new Date(v)\<close> for a finite number: the time value is truncated towards zero.\<close>

definition toDate :: "real \<Rightarrow> int" where
  "toDate v = (if v < 0 then \<lceil>v\<rceil> else \<lfloor>v\<rfloor>)"

text \<open>\<^verbatim>\<open>scale(date)\<close>: from a timestamp to a pixel.\<close>

definition scale_apply :: "TimeScale \<Rightarrow> int \<Rightarrow> real" where
  "scale_apply sc d =
     bimap (real_of_int (domain0 sc)) (real_of_int (domain1 sc)) (range0 sc) (range1 sc)
       (real_of_int d)"

text \<open>\<^verbatim>\<open>scale.invert(y)\<close>: from a pixel to a \<^verbatim>\<open>Date\<close>.\<close>

definition scale_invert :: "TimeScale \<Rightarrow> real \<Rightarrow> int" where
  "scale_invert sc y =
     toDate (bimap (range0 sc) (range1 sc) (real_of_int (domain0 sc)) (real_of_int (domain1 sc)) y)"

text \<open>
  \<^verbatim>\<open>rescaleX(x) = x.copy().domain(x.range().map(this.invertX, this).map(x.invert, x))\<close>.
  With \<^verbatim>\<open>k = 0\<close> the pixels that \<^verbatim>\<open>invertX\<close> yields are not finite. Over a range of
  width zero \<^verbatim>\<open>invert\<close> does not look at them (\<^verbatim>\<open>normalize\<close> is the constant 0.5) and
  both ends of the domain are the date in the middle of the base domain; over any other
  range the domain is not a date (\<open>None\<close>).
\<close>

definition rescaleX :: "ZoomTransform \<Rightarrow> TimeScale \<Rightarrow> TimeScale option" where
  "rescaleX t sc =
     (case (invertX t (range0 sc), invertX t (range1 sc)) of
        (Some p0, Some p1) \<Rightarrow>
          Some (sc\<lparr>domain0 := scale_invert sc p0, domain1 := scale_invert sc p1\<rparr>)
      | _ \<Rightarrow>
          if range0 sc = range1 sc then
            Some (sc\<lparr>domain0 := scale_invert sc (range0 sc),
                     domain1 := scale_invert sc (range0 sc)\<rparr>)
          else None)"

subsection \<open>The pixel dimensions of a canvas\<close>

text \<open>
  \<^verbatim>\<open>canvas.width\<close> and \<^verbatim>\<open>canvas.height\<close> are \<^verbatim>\<open>unsigned long\<close> attributes: the number
  assigned is truncated towards zero and taken modulo \<open>2^32\<close>, and a value above
  2147483647 is replaced by the attribute's default (300 for the width, 150 for the
  height).
\<close>

definition toUnsignedLong :: "real \<Rightarrow> int" where
  "toUnsignedLong v = (if v < 0 then \<lceil>v\<rceil> else \<lfloor>v\<rfloor>) mod 2 ^ 32"

definition canvasSize :: "real \<Rightarrow> int \<Rightarrow> int" where
  "canvasSize v dflt = (if toUnsignedLong v \<le> 2147483647 then toUnsignedLong v else dflt)"

text \<open>\<^verbatim>\<open>Math.round\<close>: to the nearest integer, a half upwards.\<close>

definition js_round :: "real \<Rightarrow> int" where
  "js_round v = \<lfloor>v + 1 / 2\<rfloor>"

section \<open>The responsive component (\<^verbatim>\<open>app.component.ts\<close>)\<close>

text \<open>The drag mode of \<^verbatim>\<open>initBrush\<close>; \<^verbatim>\<open>null\<close> is \<open>None\<close>.\<close>

datatype Mode = Move | L | R

text \<open>
  The component's state: the input \<^verbatim>\<open>data\<close>, the signals \<^verbatim>\<open>width\<close>, \<^verbatim>\<open>heightHost\<close>,
  \<^verbatim>\<open>zoomTransform\<close>, \<^verbatim>\<open>bx0\<close>, \<^verbatim>\<open>bx1\<close>, the variables \<^verbatim>\<open>mode\<close>, \<^verbatim>\<open>grab\<close> and \<^verbatim>\<open>width\<close>
  that the handlers of \<^verbatim>\<open>initBrush\<close> share (the last is \<open>width'\<close> here), and the pixel
  dimensions of the two canvases.
\<close>

record LineChart =
  data :: "LineChartDataItem list"
  width :: real
  heightHost :: real
  zoomTransform :: ZoomTransform
  bx0 :: real
  bx1 :: real
  mode :: "Mode option"
  grab :: real
  width' :: real
  chart_width :: int
  chart_height :: int
  dz_width :: int
  dz_height :: int

text \<open>The scale range that \<^verbatim>\<open>initZoom\<close> gives the zoom behaviour: \<^verbatim>\<open>scaleExtent([1, 30])\<close>.\<close>

definition scaleExtent :: "real \<times> real" where
  "scaleExtent = (1, 30)"

definition chartHeight :: "LineChart \<Rightarrow> real" where
  "chartHeight s = max 0 (heightHost s - dzHeight - 16 - 8)"

text \<open>\<open>None\<close>: the dataset is empty and the domain of the scale is not a date.\<close>

definition baseXScale :: "LineChart \<Rightarrow> TimeScale option" where
  "baseXScale s =
     (case extent (map date (data s)) of
        None \<Rightarrow> None
      | Some (lo, hi) \<Rightarrow>
          Some \<lparr>domain0 = lo, domain1 = hi,
                range0 = margin_left, range1 = width s - margin_right\<rparr>)"

definition xScale :: "LineChart \<Rightarrow> TimeScale option" where
  "xScale s = (case baseXScale s of None \<Rightarrow> None | Some b \<Rightarrow> rescaleX (zoomTransform s) b)"

text \<open>\<^verbatim>\<open>xScale().domain().map(Number)\<close>: \<open>None\<close> stands for a bound that is not a number.\<close>

definition visibleWindow :: "TimeScale option \<Rightarrow> int option \<times> int option" where
  "visibleWindow sc =
     (case sc of None \<Rightarrow> (None, None) | Some c \<Rightarrow> (Some (domain0 c), Some (domain1 c)))"

text \<open>The body of \<^verbatim>\<open>visibleData\<close> for the window \<^verbatim>\<open>[x0, x1]\<close>.\<close>

definition visibleSlice ::
  "LineChartDataItem list \<Rightarrow> int option \<Rightarrow> int option \<Rightarrow> LineChartDataItem list" where
  "visibleSlice a x0 x1 =
     (let i0 = bisector_left a x0 0;
          i1 = bisector_left a x1 i0
      in slice a i0 i1)"

definition visibleData :: "LineChart \<Rightarrow> LineChartDataItem list" where
  "visibleData s = (let (x0, x1) = visibleWindow (xScale s) in visibleSlice (data s) x0 x1)"

text \<open>The body of \<^verbatim>\<open>visibleExtentY\<close> for a visible slice.\<close>

definition extentY :: "LineChartDataItem list \<Rightarrow> real \<times> real" where
  "extentY vis =
     (case extent (map val vis) of
        None \<Rightarrow> (0, 1)
      | Some (mn, mx) \<Rightarrow> if mn = mx then (mn - 1, mx + 1) else (mn, mx))"

definition visibleExtentY :: "LineChart \<Rightarrow> real \<times> real" where
  "visibleExtentY s = extentY (visibleData s)"

text \<open>The body of \<^verbatim>\<open>yTicksValues\<close> for a value domain and a chart height.\<close>

definition tickCount :: "real \<Rightarrow> nat" where
  "tickCount h =
     (let maxLabels = 5;
          fullTickCount = max 2 (js_round ((h - margin_top - margin_bottom) / 40))
      in nat (min fullTickCount maxLabels))"

definition ticksOf :: "real \<times> real \<Rightarrow> real \<Rightarrow> real list" where
  "ticksOf ext h =
     (let (minY, maxY) = ext;
          step = (maxY - minY) / (real (tickCount h) - 1)
      in map (\<lambda>i. minY + real i * step) [0..<tickCount h])"

definition yTicksValues :: "LineChart \<Rightarrow> real list" where
  "yTicksValues s = ticksOf (visibleExtentY s) (chartHeight s)"

text \<open>
  \<^verbatim>\<open>setBrush\<close>. The call \<^verbatim>\<open>zoomBehavior.transform\<close> hands \<^verbatim>\<open>t\<close> to the listener of
  \<^verbatim>\<open>initZoom\<close> as it is (d3 does not apply \<^verbatim>\<open>scaleExtent\<close> to a transform that is set
  explicitly), which stores it in \<^verbatim>\<open>zoomTransform\<close> once more.
\<close>

definition setBrush :: "real \<Rightarrow> real \<Rightarrow> LineChart \<Rightarrow> LineChart" where
  "setBrush x0 x1 s =
     (let s1 = s\<lparr>bx0 := x0, bx1 := x1\<rparr>;
          span = \<bar>x1 - x0\<bar>
      in if span = 0 then s1
         else
           (let full = width s1 - margin_left - margin_right;
                k = full / span;
                tx = margin_left - min x0 x1 * k;
                t = scale (translate zoomIdentity tx 0) k
            in s1\<lparr>zoomTransform := t\<rparr>))"

text \<open>
  \<^verbatim>\<open>syncZoomWithBrush\<close>, the effect that follows every change of \<^verbatim>\<open>xScale\<close>; \<open>None\<close> when
  a scale is not finite.
\<close>

definition syncZoomWithBrush :: "LineChart \<Rightarrow> LineChart option" where
  "syncZoomWithBrush s =
     (case (xScale s, baseXScale s) of
        (Some sc, Some b) \<Rightarrow>
          Some (s\<lparr>bx0 := scale_apply b (domain0 sc), bx1 := scale_apply b (domain1 sc)\<rparr>)
      | _ \<Rightarrow> None)"

text \<open>The handlers of \<^verbatim>\<open>initBrush\<close>; \<open>cx\<close> is \<^verbatim>\<open>e.clientX\<close>.\<close>

definition startDrag :: "Mode \<Rightarrow> real \<Rightarrow> LineChart \<Rightarrow> LineChart" where
  "startDrag m cx s =
     (let s1 = s\<lparr>mode := Some m\<rparr>;
          x0 = bx0 s;
          x1 = bx1 s
      in case m of
           Move \<Rightarrow> s1\<lparr>grab := cx - x0, width' := x1 - x0\<rparr>
         | L \<Rightarrow> s1\<lparr>grab := cx - x0\<rparr>
         | R \<Rightarrow> s1\<lparr>grab := cx - x1\<rparr>)"

text \<open>The \<^verbatim>\<open>switch\<close> of \<^verbatim>\<open>onMove\<close>: the candidate edges for each mode.\<close>

definition moveEdges :: "Mode \<Rightarrow> real \<Rightarrow> LineChart \<Rightarrow> real \<times> real" where
  "moveEdges m cx s =
     (let mn = margin_left;
          mx = width s - margin_right;
          x0 = bx0 s;
          x1 = bx1 s
      in case m of
           Move \<Rightarrow>
             (let x0 = cx - grab s;
                  x1 = x0 + width' s;
                  (x0, x1) = (if x0 < mn then (mn, x1 + (mn - x0)) else (x0, x1));
                  (x0, x1) = (if x1 > mx then (x0 - (x1 - mx), mx) else (x0, x1))
              in (x0, x1))
         | L \<Rightarrow> (max mn (min (cx - grab s) mx), x1)
         | R \<Rightarrow> (x0, max mn (min (cx - grab s) mx)))"

definition onMove :: "real \<Rightarrow> LineChart \<Rightarrow> LineChart" where
  "onMove cx s =
     (case mode s of
        None \<Rightarrow> s
      | Some m \<Rightarrow>
          (let (x0, x1) = moveEdges m cx s
           in if x0 > x1 then
                setBrush x1 x0
                  (s\<lparr>mode := Some (case m of L \<Rightarrow> R | R \<Rightarrow> L | Move \<Rightarrow> Move),
                     grab := - grab s\<rparr>)
              else setBrush x0 x1 s))"

definition onUp :: "LineChart \<Rightarrow> LineChart" where
  "onUp s = s\<lparr>mode := None\<rparr>"

text \<open>
  The callback of \<^verbatim>\<open>observeHostResize\<close> for a content rectangle \<open>w\<close> by \<open>h\<close>, followed
  by the step it queues. \<open>None\<close> when a scale is not finite.
\<close>

definition observeHostResize :: "real \<Rightarrow> real \<Rightarrow> LineChart \<Rightarrow> LineChart option" where
  "observeHostResize w h s =
     (case xScale s of
        None \<Rightarrow> None
      | Some sc \<Rightarrow>
          (let prevD0 = domain0 sc;
               prevD1 = domain1 sc;
               s1 = s\<lparr>width := w, heightHost := h\<rparr>;
               s2 = s1\<lparr>chart_width := canvasSize w 300,
                       chart_height := canvasSize (chartHeight s1) 150,
                       dz_width := canvasSize w 300,
                       dz_height := canvasSize dzHeight 150\<rparr>
           in case baseXScale s2 of
                None \<Rightarrow> None
              | Some b \<Rightarrow> Some (setBrush (scale_apply b prevD0) (scale_apply b prevD1) s2)))"

section \<open>The fixed-size component (\<^verbatim>\<open>unnamed/part_000\<close>)\<close>

record FixedChart =
  fdata :: "LineChartDataItem list"
  fzoomTransform :: ZoomTransform

definition fixed_width :: real where "fixed_width = 928"
definition fixed_height :: real where "fixed_height = 500"

definition fixed_baseXScale :: "FixedChart \<Rightarrow> TimeScale option" where
  "fixed_baseXScale c =
     (case extent (map date (fdata c)) of
        None \<Rightarrow> None
      | Some (lo, hi) \<Rightarrow>
          Some \<lparr>domain0 = lo, domain1 = hi,
                range0 = margin_left, range1 = fixed_width - margin_right\<rparr>)"

definition fixed_xScale :: "FixedChart \<Rightarrow> TimeScale option" where
  "fixed_xScale c =
     (case fixed_baseXScale c of None \<Rightarrow> None | Some b \<Rightarrow> rescaleX (fzoomTransform c) b)"

definition fixed_visibleData :: "FixedChart \<Rightarrow> LineChartDataItem list" where
  "fixed_visibleData c =
     (let (x0, x1) = visibleWindow (fixed_xScale c);
          a = fdata c;
          i0 = bisector_left a x0 0;
          i1 = bisector_left a x1 i0
      in slice a i0 i1)"

definition fixed_visibleExtentY :: "FixedChart \<Rightarrow> real \<times> real" where
  "fixed_visibleExtentY c =
     (case extent (map val (fixed_visibleData c)) of
        None \<Rightarrow> (0, 1)
      | Some (mn, mx) \<Rightarrow> if mn = mx then (mn - 1, mx + 1) else (mn, mx))"

definition fixed_yTicksValues :: "FixedChart \<Rightarrow> real list" where
  "fixed_yTicksValues c =
     (let (minY, maxY) = fixed_visibleExtentY c;
          maxLabels = 5;
          fullTickCount = max 2 (js_round ((fixed_height - margin_top - margin_bottom) / 40));
          tickCount = nat (min fullTickCount maxLabels);
          step = (maxY - minY) / (real tickCount - 1)
      in map (\<lambda>i. minY + real i * step) [0..<tickCount])"

section \<open>Example states\<close>

text \<open>Three daily points, and the responsive component laid out at 928 by 564 pixels
  (a chart height of 500) with the identity transform.\<close>

definition example_data :: "LineChartDataItem list" where
  "example_data =
     [\<lparr>date = 0, val = 50\<rparr>, \<lparr>date = 86400000, val = 70\<rparr>, \<lparr>date = 172800000, val = 60\<rparr>]"

definition example_chart :: LineChart where
  "example_chart =
     \<lparr>data = example_data, width = 928, heightHost = 564, zoomTransform = zoomIdentity,
      bx0 = 32, bx1 = 920, mode = None, grab = 0, width' = 0,
      chart_width = 928, chart_height = 500, dz_width = 928, dz_height = 40\<rparr>"

text \<open>The same layout over two points 10 milliseconds apart.\<close>

definition fine_chart :: LineChart where
  "fine_chart = example_chart\<lparr>data := [\<lparr>date = 0, val = 1\<rparr>, \<lparr>date = 10, val = 2\<rparr>]\<rparr>"

text \<open>The same layout over the single point of 1 January 2024.\<close>

definition single_chart :: LineChart where
  "single_chart = example_chart\<lparr>data := [\<lparr>date = 1704067200000, val = 50\<rparr>]\<rparr>"

section \<open>The extent of a list\<close>

lemma extent_loop_Some:
  "extent_loop (Some (mn, mx)) vs = Some (Min (insert mn (set vs)), Max (insert mx (set vs)))"
proof (induction vs arbitrary: mn mx)
  case Nil
  then show ?case by simp
next
  case (Cons v vs)
  have a: "(if mn > v then v else mn) = min v mn" by (auto simp: min_def)
  have b: "(if mx < v then v else mx) = max v mx" by (auto simp: max_def)
  have c: "Min (insert (min v mn) (set vs)) = Min (insert mn (insert v (set vs)))"
    by (cases "set vs = {}") (simp_all add: min.assoc min.commute min.left_commute)
  have d: "Max (insert (max v mx) (set vs)) = Max (insert mx (insert v (set vs)))"
    by (cases "set vs = {}") (simp_all add: max.assoc max.commute max.left_commute)
  show ?case
    unfolding extent_loop.simps a b Cons.IH c d by simp
qed

lemma extent_nonempty: "vs \<noteq> [] \<Longrightarrow> extent vs = Some (Min (set vs), Max (set vs))"
  by (cases vs) (simp_all add: extent_def extent_loop_Some)

lemma extent_empty: "extent [] = None"
  by (simp add: extent_def)

lemma extentY_cases:
  "extentY vis =
     (if vis = [] then (0, 1)
      else if Min (val ` set vis) = Max (val ` set vis)
           then (Min (val ` set vis) - 1, Max (val ` set vis) + 1)
           else (Min (val ` set vis), Max (val ` set vis)))"
  by (simp add: extentY_def extent_empty extent_nonempty)

section \<open>The visible value domain\<close>

text \<open>
  C5. The visible value domain is computed from the visible slice alone. It is
  \<open>[0, 1]\<close> for an empty slice, \<open>[min, max]\<close> of the slice's values when \<open>min < max\<close>,
  and \<open>[c - 1, c + 1]\<close> when the slice is not empty and all its values are \<open>c\<close>; a
  single point of value 50 gives \<open>[49, 51]\<close>.
\<close>

theorem visibleExtentY_total:
  "visibleExtentY s = extentY (visibleData s) \<and>
   (vis = [] \<longrightarrow> extentY vis = (0, 1)) \<and>
   (vis \<noteq> [] \<and> Min (val ` set vis) < Max (val ` set vis) \<longrightarrow>
      extentY vis = (Min (val ` set vis), Max (val ` set vis))) \<and>
   (vis \<noteq> [] \<and> (\<forall>d \<in> set vis. val d = c) \<longrightarrow> extentY vis = (c - 1, c + 1))"
proof -
  have "extentY vis = (c - 1, c + 1)" if ne: "vis \<noteq> []" and eq: "\<forall>d \<in> set vis. val d = c"
  proof -
    from ne obtain d where "d \<in> set vis" by (cases vis) auto
    with eq have "val ` set vis = {c}" by auto
    with ne show ?thesis by (simp add: extentY_cases)
  qed
  then show ?thesis
    by (simp add: visibleExtentY_def extentY_cases)
qed

theorem visibleExtentY_total_witness:
  "extentY [] = (0, 1) \<and>
   extentY [\<lparr>date = 0, val = 50\<rparr>] = (49, 51) \<and>
   extentY [\<lparr>date = 0, val = 50\<rparr>, \<lparr>date = 1, val = 70\<rparr>, \<lparr>date = 2, val = 60\<rparr>] = (50, 70)"
  using visibleExtentY_total [of example_chart "[]" 0]
    visibleExtentY_total [of example_chart "[\<lparr>date = 0, val = 50\<rparr>]" 50]
    visibleExtentY_total [of example_chart
      "[\<lparr>date = 0, val = 50\<rparr>, \<lparr>date = 1, val = 70\<rparr>, \<lparr>date = 2, val = 60\<rparr>]" 0]
  by simp

section \<open>The brush and the zoom transform\<close>

lemma setBrush_transform:
  "x0 \<noteq> x1 \<Longrightarrow>
     zoomTransform (setBrush x0 x1 s) =
       \<lparr>zk = (width s - margin_left - margin_right) / \<bar>x1 - x0\<bar>,
        zx = margin_left - min x0 x1 * ((width s - margin_left - margin_right) / \<bar>x1 - x0\<bar>),
        zy = 0\<rparr>"
  by (auto simp: setBrush_def Let_def scale_def translate_def zoomIdentity_def)

lemma setBrush_fields:
  "bx0 (setBrush x0 x1 s) = x0" "bx1 (setBrush x0 x1 s) = x1"
  "width (setBrush x0 x1 s) = width s" "heightHost (setBrush x0 x1 s) = heightHost s"
  "data (setBrush x0 x1 s) = data s" "mode (setBrush x0 x1 s) = mode s"
  "grab (setBrush x0 x1 s) = grab s" "width' (setBrush x0 x1 s) = width' s"
  "chart_width (setBrush x0 x1 s) = chart_width s" "chart_height (setBrush x0 x1 s) = chart_height s"
  "dz_width (setBrush x0 x1 s) = dz_width s" "dz_height (setBrush x0 x1 s) = dz_height s"
  by (simp_all add: setBrush_def Let_def)

text \<open>
  C9. A call \<^verbatim>\<open>setBrush(x0, x1)\<close> with \<open>x0 = x1\<close> stores the two edges in \<^verbatim>\<open>bx0\<close> and
  \<^verbatim>\<open>bx1\<close> and changes nothing else: it returns before the quotient
  \<^verbatim>\<open>full / span\<close> is formed, and the zoom transform stays as it was.
\<close>

theorem setBrush_zero_span:
  "x0 = x1 \<Longrightarrow>
     setBrush x0 x1 s = s\<lparr>bx0 := x0, bx1 := x1\<rparr> \<and>
     zoomTransform (setBrush x0 x1 s) = zoomTransform s"
  by (simp add: setBrush_def)

theorem setBrush_zero_span_witness:
  "setBrush 100 100 example_chart = example_chart\<lparr>bx0 := 100, bx1 := 100\<rparr> \<and>
   zoomTransform (setBrush 100 100 example_chart) = zoomIdentity"
  using setBrush_zero_span [of 100 100 example_chart]
  by (simp add: example_chart_def)

text \<open>
  The scale factor that \<^verbatim>\<open>setBrush\<close> publishes for a selection with \<open>x0 \<noteq> x1\<close> inside
  the plot bounds is \<open>plotWidth / |x1 - x0|\<close>: at least 1, and within the upper end of
  \<open>scaleExtent\<close> only when the selection is at least a thirtieth of the plot width wide.
\<close>

lemma setBrush_scale_factor:
  assumes "x0 \<noteq> x1"
    and "margin_left \<le> x0" and "x0 \<le> width s - margin_right"
    and "margin_left \<le> x1" and "x1 \<le> width s - margin_right"
  shows "zk (zoomTransform (setBrush x0 x1 s)) =
           (width s - margin_left - margin_right) / \<bar>x1 - x0\<bar> \<and>
         fst scaleExtent \<le> zk (zoomTransform (setBrush x0 x1 s)) \<and>
         (zk (zoomTransform (setBrush x0 x1 s)) \<le> snd scaleExtent \<longleftrightarrow>
            (width s - margin_left - margin_right) / 30 \<le> \<bar>x1 - x0\<bar>)"
proof -
  have pos: "0 < \<bar>x1 - x0\<bar>" using assms(1) by simp
  have le: "\<bar>x1 - x0\<bar> \<le> width s - margin_left - margin_right"
    using assms(2-5) by linarith
  have k: "zk (zoomTransform (setBrush x0 x1 s)) =
             (width s - margin_left - margin_right) / \<bar>x1 - x0\<bar>"
    using assms(1) by (simp add: setBrush_transform)
  have one: "1 \<le> (width s - margin_left - margin_right) / \<bar>x1 - x0\<bar>"
    using pos le by (simp add: le_divide_eq)
  have thirty: "(width s - margin_left - margin_right) / \<bar>x1 - x0\<bar> \<le> 30 \<longleftrightarrow>
                (width s - margin_left - margin_right) / 30 \<le> \<bar>x1 - x0\<bar>"
    using pos by (simp add: divide_le_eq mult.commute)
  show ?thesis using k one thirty by (simp add: scaleExtent_def)
qed

text \<open>
  C2. The scale factor is to stay within \<open>scaleExtent\<close>, the range \<open>[1, 30]\<close> of
  \<^verbatim>\<open>initZoom\<close>, after brush-driven updates too. \<^verbatim>\<open>setBrush\<close> does not clamp it: on the
  example chart (plot width 888), pressing the right handle at 920 and moving the
  pointer to 42 leaves the selection \<open>(32, 42)\<close>, inside the plot bounds, and publishes
  the transform with \<open>k = 888 / 10 = 88.8\<close>, above 30.
\<close>

theorem setBrush_exceeds_scaleExtent:
  "bx0 (onMove 42 (startDrag R 920 example_chart)) = 32 \<and>
   bx1 (onMove 42 (startDrag R 920 example_chart)) = 42 \<and>
   zk (zoomTransform (onMove 42 (startDrag R 920 example_chart))) = 444 / 5 \<and>
   \<not> zk (zoomTransform (onMove 42 (startDrag R 920 example_chart))) \<le> snd scaleExtent"
  by (simp add: onMove_def moveEdges_def startDrag_def setBrush_transform setBrush_fields Let_def
      example_chart_def margin_left_def margin_right_def scaleExtent_def)

section \<open>Dragging the brush\<close>

text \<open>
  C7. While the whole selection is moved, with the width captured at the start of the
  drag between 0 and the plot width, every pointer move publishes a selection with
  \<open>marginLeft \<le> x0 \<le> x1 \<le> width - marginRight\<close> and \<open>x1 - x0\<close> equal to the captured
  width: both edges follow the pointer, and at either bound the selection stops with
  its width kept.
\<close>

theorem onMove_move_clamped:
  assumes m: "mode s = Some Move"
    and w0: "0 \<le> width' s"
    and w1: "width' s \<le> (width s - margin_right) - margin_left"
  shows "margin_left \<le> bx0 (onMove cx s) \<and>
         bx0 (onMove cx s) \<le> bx1 (onMove cx s) \<and>
         bx1 (onMove cx s) \<le> width s - margin_right \<and>
         bx1 (onMove cx s) - bx0 (onMove cx s) = width' s \<and>
         (margin_left \<le> cx - grab s \<and> cx - grab s + width' s \<le> width s - margin_right \<longrightarrow>
            bx0 (onMove cx s) = cx - grab s \<and> bx1 (onMove cx s) = cx - grab s + width' s) \<and>
         (cx - grab s < margin_left \<longrightarrow>
            bx0 (onMove cx s) = margin_left \<and> bx1 (onMove cx s) = margin_left + width' s) \<and>
         (margin_left \<le> cx - grab s \<and> width s - margin_right < cx - grab s + width' s \<longrightarrow>
            bx0 (onMove cx s) = width s - margin_right - width' s \<and>
            bx1 (onMove cx s) = width s - margin_right)"
  using m w0 w1
  by (auto simp: onMove_def moveEdges_def Let_def setBrush_fields split: if_splits)

theorem onMove_move_clamped_witness:
  "bx0 (onMove 1000 (startDrag Move 150 (setBrush 100 200 example_chart))) = 820 \<and>
   bx1 (onMove 1000 (startDrag Move 150 (setBrush 100 200 example_chart))) = 920"
proof -
  let ?s = "startDrag Move 150 (setBrush 100 200 example_chart)"
  have f: "mode ?s = Some Move" "grab ?s = 50" "width' ?s = 100" "width ?s = 928"
    by (simp_all add: startDrag_def Let_def setBrush_fields example_chart_def)
  show ?thesis
    using onMove_move_clamped [of ?s 1000]
    by (simp add: f margin_left_def margin_right_def)
qed

text \<open>
  A pointer move in a resize drag (left or right handle) publishes a selection with
  \<open>x0 \<le> x1\<close>. When the moved edge passes the other one, that same update swaps the two
  edges and the role, and negates \<^verbatim>\<open>grab\<close>: the grabbed edge is published at \<open>p\<close>, the
  clamped pointer position minus the grab offset, and the next move puts it at \<open>q\<close>, the
  clamped pointer position plus that offset.
\<close>

lemma onMove_resize_crossing:
  assumes m: "mode s = Some m" and lr: "m = L \<or> m = R"
  shows "let p = max margin_left (min (cx - grab s) (width s - margin_right));
             q = max margin_left (min (cx2 + grab s) (width s - margin_right));
             (e0, e1) = (if m = L then (p, bx1 s) else (bx0 s, p));
             s' = onMove cx s
         in moveEdges m cx s = (e0, e1) \<and>
            bx0 s' \<le> bx1 s' \<and>
            (e0 > e1 \<longrightarrow>
               bx0 s' = e1 \<and> bx1 s' = e0 \<and>
               mode s' = Some (if m = L then R else L) \<and> grab s' = - grab s \<and>
               moveEdges (if m = L then R else L) cx2 s' = (if m = L then (e1, q) else (q, e0))) \<and>
            (e0 \<le> e1 \<longrightarrow>
               bx0 s' = e0 \<and> bx1 s' = e1 \<and> mode s' = Some m \<and> grab s' = grab s)"
  using m lr
  by (auto simp: onMove_def moveEdges_def Let_def setBrush_fields split: if_splits prod.splits)

text \<open>
  C6. Across the crossing the grabbed edge is to keep tracking the pointer. With the
  selection \<open>(100, 200)\<close> and the left handle pressed at 105, \<^verbatim>\<open>startDrag\<close> sets
  \<^verbatim>\<open>grab = 5\<close>, and the edge is 5 pixels behind the pointer. The move to 206 crosses:
  the selection is \<open>(200, 201)\<close>, the role right, and \<^verbatim>\<open>grab = -5\<close>, where \<^verbatim>\<open>startDrag\<close>
  for the right handle would have \<^verbatim>\<open>grab = 206 - 201 = 5\<close>. The move to 207 then puts
  the edge at 212: it has moved 11 pixels for one pixel of the pointer, and is ahead of
  it.
\<close>

theorem onMove_crossing_jump:
  "grab (startDrag L 105 (setBrush 100 200 example_chart)) = 5 \<and>
   bx0 (onMove 206 (startDrag L 105 (setBrush 100 200 example_chart))) = 200 \<and>
   bx1 (onMove 206 (startDrag L 105 (setBrush 100 200 example_chart))) = 201 \<and>
   mode (onMove 206 (startDrag L 105 (setBrush 100 200 example_chart))) = Some R \<and>
   grab (onMove 206 (startDrag L 105 (setBrush 100 200 example_chart))) = - 5 \<and>
   grab (startDrag R 206 (setBrush 200 201 example_chart)) = 5 \<and>
   bx0 (onMove 207 (onMove 206 (startDrag L 105 (setBrush 100 200 example_chart)))) = 200 \<and>
   bx1 (onMove 207 (onMove 206 (startDrag L 105 (setBrush 100 200 example_chart)))) = 212"
proof -
  let ?s = "startDrag L 105 (setBrush 100 200 example_chart)"
  have f: "mode ?s = Some L" "grab ?s = 5" "bx0 ?s = 100" "bx1 ?s = 200" "width ?s = 928"
    by (simp_all add: startDrag_def Let_def setBrush_fields example_chart_def)
  have g: "mode (onMove 206 ?s) = Some R" "grab (onMove 206 ?s) = - 5"
    "bx0 (onMove 206 ?s) = 200" "bx1 (onMove 206 ?s) = 201" "width (onMove 206 ?s) = 928"
    by (simp_all add: onMove_def moveEdges_def Let_def setBrush_fields f
        margin_left_def margin_right_def)
  have h: "bx0 (onMove 207 (onMove 206 ?s)) = 200" "bx1 (onMove 207 (onMove 206 ?s)) = 212"
    by (simp_all add: onMove_def [of 207] moveEdges_def Let_def setBrush_fields g
        margin_left_def margin_right_def)
  have r: "grab (startDrag R 206 (setBrush 200 201 example_chart)) = 5"
    by (simp add: startDrag_def Let_def setBrush_fields)
  show ?thesis using f g h r by simp
qed

section \<open>Value ticks\<close>

text \<open>
  C8, as the code has it. For every value domain \<open>[minY, maxY]\<close> and chart height the
  tick sequence has \<open>min 5 (max 2 (round (plotHeight / 40)))\<close> entries, so at least 2 and
  at most 5; they are evenly spaced, the first \<open>minY\<close>, the last \<open>maxY\<close>. The count is
  within \<open>floor (plotHeight / 40)\<close> once the plot is 200 pixels high.
\<close>

theorem yTicksValues_bounds:
  "yTicksValues s = ticksOf (visibleExtentY s) (chartHeight s) \<and>
   (let ticks = ticksOf (minY, maxY) h;
        n = length ticks;
        plotHeight = h - margin_top - margin_bottom
    in int n = min 5 (max 2 (js_round (plotHeight / 40))) \<and>
       2 \<le> n \<and> n \<le> 5 \<and>
       (200 \<le> plotHeight \<longrightarrow> int n \<le> \<lfloor>plotHeight / 40\<rfloor>) \<and>
       hd ticks = minY \<and> last ticks = maxY \<and>
       (\<forall>i < n. ticks ! i = minY + real i * ((maxY - minY) / (real n - 1))))"
proof -
  define n where "n = tickCount h"
  have n: "int n = min 5 (max 2 (js_round ((h - margin_top - margin_bottom) / 40)))"
    by (simp add: n_def tickCount_def Let_def min.commute)
  then have n2: "2 \<le> n" and n5: "n \<le> 5" by linarith+
  have len: "length (ticksOf (minY, maxY) h) = n"
    by (simp add: ticksOf_def n_def Let_def)
  have nth: "ticksOf (minY, maxY) h ! i = minY + real i * ((maxY - minY) / (real n - 1))"
    if "i < n" for i
    using that by (simp add: ticksOf_def n_def Let_def)
  have ne: "ticksOf (minY, maxY) h \<noteq> []" using len n2 by auto
  have h: "hd (ticksOf (minY, maxY) h) = minY"
    using nth [of 0] n2 ne by (simp add: hd_conv_nth)
  have "last (ticksOf (minY, maxY) h) = ticksOf (minY, maxY) h ! (n - 1)"
    using ne len by (simp add: last_conv_nth)
  also have "\<dots> = minY + real (n - 1) * ((maxY - minY) / (real n - 1))"
    using nth [of "n - 1"] n2 by simp
  also have "\<dots> = maxY" using n2 by (simp add: of_nat_diff)
  finally have l: "last (ticksOf (minY, maxY) h) = maxY" .
  have fl: "int n \<le> \<lfloor>(h - margin_top - margin_bottom) / 40\<rfloor>"
    if "200 \<le> h - margin_top - margin_bottom"
  proof -
    have "(5::real) \<le> (h - margin_top - margin_bottom) / 40" using that by simp
    then have "5 \<le> \<lfloor>(h - margin_top - margin_bottom) / 40\<rfloor>" by linarith
    with n5 show ?thesis by linarith
  qed
  show ?thesis
    using n n2 n5 h l fl nth by (simp add: Let_def len yTicksValues_def)
qed

theorem yTicksValues_bounds_witness:
  "ticksOf (100, 130) 500 = [100, 215 / 2, 115, 245 / 2, 130]"
  using yTicksValues_bounds [of example_chart 100 130 500]
  by (simp add: ticksOf_def tickCount_def js_round_def margin_top_def margin_bottom_def Let_def upt_rec)

text \<open>
  At a host height of 204 the chart is 140 pixels high and the plot 100: the code rounds
  2.5 to 3 ticks, more than \<open>floor (100 / 40) = 2\<close>.
\<close>

theorem yTicksValues_floor_counterexample:
  "\<not> int (length (yTicksValues (example_chart\<lparr>heightHost := 204\<rparr>)))
       \<le> \<lfloor>(chartHeight (example_chart\<lparr>heightHost := 204\<rparr>) - margin_top - margin_bottom) / 40\<rfloor>"
  by (simp add: yTicksValues_def ticksOf_def tickCount_def js_round_def chartHeight_def dzHeight_def
      margin_top_def margin_bottom_def Let_def example_chart_def split: prod.splits)

section \<open>The two components\<close>

text \<open>
  C10. On the same dataset and zoom transform, the responsive component with a width of
  928 and a chart height of 500 computes the visible slice, the visible value domain
  and the value ticks of the fixed-size component.
\<close>

theorem variants_agree:
  assumes "width s = 928" and "chartHeight s = 500"
    and "data s = fdata c" and "zoomTransform s = fzoomTransform c"
  shows "visibleData s = fixed_visibleData c \<and>
         visibleExtentY s = fixed_visibleExtentY c \<and>
         yTicksValues s = fixed_yTicksValues c"
proof -
  have x: "xScale s = fixed_xScale c"
    using assms
    by (simp add: xScale_def fixed_xScale_def baseXScale_def fixed_baseXScale_def fixed_width_def
        split: option.splits prod.splits)
  have d: "visibleData s = fixed_visibleData c"
    using assms x by (simp add: visibleData_def fixed_visibleData_def visibleSlice_def Let_def)
  have e: "visibleExtentY s = fixed_visibleExtentY c"
    by (simp add: visibleExtentY_def fixed_visibleExtentY_def extentY_def d)
  have t: "yTicksValues s = fixed_yTicksValues c"
    using assms by (simp add: yTicksValues_def fixed_yTicksValues_def ticksOf_def tickCount_def e
        fixed_height_def Let_def)
  show ?thesis using d e t by simp
qed

theorem variants_agree_witness:
  "visibleData example_chart =
     fixed_visibleData \<lparr>fdata = example_data, fzoomTransform = zoomIdentity\<rparr> \<and>
   visibleExtentY example_chart =
     fixed_visibleExtentY \<lparr>fdata = example_data, fzoomTransform = zoomIdentity\<rparr> \<and>
   yTicksValues example_chart =
     fixed_yTicksValues \<lparr>fdata = example_data, fzoomTransform = zoomIdentity\<rparr>"
  using variants_agree [of example_chart "\<lparr>fdata = example_data, fzoomTransform = zoomIdentity\<rparr>"]
  by (simp add: example_chart_def chartHeight_def dzHeight_def)

section \<open>The visible slice\<close>

lemma sorted_date_mono:
  "sorted (map date a) \<Longrightarrow> i \<le> j \<Longrightarrow> j < length a \<Longrightarrow> date (a ! i) \<le> date (a ! j)"
  using sorted_nth_mono [of "map date a" i j] by simp

lemma bisect_loop_spec:
  assumes "sorted (map date a)" and "lo \<le> hi" and "hi \<le> length a"
    and "\<forall>j. hi \<le> j \<and> j < length a \<longrightarrow> x \<le> date (a ! j)"
  shows "lo \<le> bisect_loop a x lo hi \<and> bisect_loop a x lo hi \<le> hi \<and>
         (\<forall>j. lo \<le> j \<and> j < bisect_loop a x lo hi \<longrightarrow> date (a ! j) < x) \<and>
         (\<forall>j. bisect_loop a x lo hi \<le> j \<and> j < length a \<longrightarrow> x \<le> date (a ! j))"
  using assms
proof (induction a x lo hi rule: bisect_loop.induct)
  case (1 a x lo hi)
  show ?case
  proof (cases "lo < hi")
    case False
    have eq: "bisect_loop a x lo hi = lo"
      using False by (subst bisect_loop.simps) simp
    from False "1.prems"(2) have "lo = hi" by simp
    with "1.prems"(4) show ?thesis unfolding eq by simp
  next
    case True
    define mid where "mid = (lo + hi) div 2"
    have mid: "lo \<le> mid" "mid < hi" using True by (simp_all add: mid_def)
    show ?thesis
    proof (cases "date (a ! mid) < x")
      case lt: True
      have eq: "bisect_loop a x lo hi = bisect_loop a x (mid + 1) hi"
        using True lt by (simp add: bisect_loop.simps [of a x lo hi] mid_def Let_def)
      have ih: "mid + 1 \<le> bisect_loop a x (mid + 1) hi \<and> bisect_loop a x (mid + 1) hi \<le> hi \<and>
         (\<forall>j. mid + 1 \<le> j \<and> j < bisect_loop a x (mid + 1) hi \<longrightarrow> date (a ! j) < x) \<and>
         (\<forall>j. bisect_loop a x (mid + 1) hi \<le> j \<and> j < length a \<longrightarrow> x \<le> date (a ! j))"
        using "1.IH"(1) [OF True mid_def lt "1.prems"(1)] mid "1.prems" by simp
      have low: "date (a ! j) < x" if "j \<le> mid" for j
        using sorted_date_mono [OF "1.prems"(1) that] mid "1.prems"(3) lt by simp
      show ?thesis
        unfolding eq using ih mid low
        by (metis Suc_eq_plus1 Suc_leI not_less_eq_eq le_trans less_imp_le_nat linorder_not_less)
    next
      case ge: False
      have eq: "bisect_loop a x lo hi = bisect_loop a x lo mid"
        using True ge by (simp add: bisect_loop.simps [of a x lo hi] mid_def Let_def)
      have up: "\<forall>j. mid \<le> j \<and> j < length a \<longrightarrow> x \<le> date (a ! j)"
      proof (intro allI impI)
        fix j assume "mid \<le> j \<and> j < length a"
        then have "date (a ! mid) \<le> date (a ! j)"
          using sorted_date_mono [OF "1.prems"(1), of mid j] by simp
        with ge show "x \<le> date (a ! j)" by simp
      qed
      have ih: "lo \<le> bisect_loop a x lo mid \<and> bisect_loop a x lo mid \<le> mid \<and>
         (\<forall>j. lo \<le> j \<and> j < bisect_loop a x lo mid \<longrightarrow> date (a ! j) < x) \<and>
         (\<forall>j. bisect_loop a x lo mid \<le> j \<and> j < length a \<longrightarrow> x \<le> date (a ! j))"
        using "1.IH"(2) [OF True mid_def ge "1.prems"(1) _ _ up] mid "1.prems" by simp
      show ?thesis
        unfolding eq using ih mid by auto
    qed
  qed
qed

lemma bisector_left_spec:
  assumes "sorted (map date a)" and "lo \<le> length a"
  shows "lo \<le> bisector_left a (Some x) lo \<and> bisector_left a (Some x) lo \<le> length a \<and>
         (\<forall>j. lo \<le> j \<and> j < bisector_left a (Some x) lo \<longrightarrow> date (a ! j) < x) \<and>
         (\<forall>j. bisector_left a (Some x) lo \<le> j \<and> j < length a \<longrightarrow> x \<le> date (a ! j))"
proof (cases "lo < length a")
  case True
  then have "bisector_left a (Some x) lo = bisect_loop a x lo (length a)"
    by (simp add: bisector_left_def)
  then show ?thesis
    using bisect_loop_spec [OF assms(1) assms(2), of x] by simp
next
  case False
  with assms(2) show ?thesis by (simp add: bisector_left_def)
qed

lemma filter_segment:
  assumes "i0 \<le> i1" and "i1 \<le> length a"
    and "\<forall>j < length a. P (a ! j) \<longleftrightarrow> i0 \<le> j \<and> j < i1"
  shows "filter P a = take (i1 - i0) (drop i0 a)"
proof -
  have split: "a = take i0 a @ take (i1 - i0) (drop i0 a) @ drop i1 a"
    using assms(1,2)
    by (metis add_diff_cancel_left' append_take_drop_id drop_drop le_Suc_ex add.commute)
  have f1: "filter P (take i0 a) = []"
    using assms by (auto simp: filter_empty_conv in_set_conv_nth)
  have f3: "filter P (drop i1 a) = []"
    using assms by (auto simp: filter_empty_conv in_set_conv_nth)
  have f2: "filter P (take (i1 - i0) (drop i0 a)) = take (i1 - i0) (drop i0 a)"
    using assms by (auto simp: filter_id_conv in_set_conv_nth)
  have "filter P a = filter P (take i0 a @ take (i1 - i0) (drop i0 a) @ drop i1 a)"
    using split by simp
  then show ?thesis by (simp add: f1 f2 f3)
qed

text \<open>
  C4, as the code has it. On a dataset sorted ascending by date and a window
  \<open>[x0, x1]\<close>, the visible slice is \<open>data[i0:i1]\<close>, where \<open>i0\<close> is the first index with
  a date at or after \<open>x0\<close> and \<open>i1\<close> the first index from \<open>i0\<close> on with a date at or after
  \<open>x1\<close> (the length when there is none). It is the linear-scan filter of the points
  with \<open>x0 \<le> date < x1\<close>: empty when no date lies in the half-open window, and the whole
  dataset when every date does, so that a window ending at the last date leaves the
  points of that date out.
\<close>

theorem visibleSlice_bisection:
  assumes srt: "sorted (map date a)"
  shows "let i0 = bisector_left a (Some x0) 0;
             i1 = bisector_left a (Some x1) i0;
             vis = visibleSlice a (Some x0) (Some x1)
         in vis = slice a i0 i1 \<and>
            i0 \<le> i1 \<and> i1 \<le> length a \<and>
            (\<forall>j < i0. date (a ! j) < x0) \<and>
            (i0 < length a \<longrightarrow> x0 \<le> date (a ! i0)) \<and>
            (\<forall>j. i0 \<le> j \<and> j < i1 \<longrightarrow> date (a ! j) < x1) \<and>
            (i1 < length a \<longrightarrow> x1 \<le> date (a ! i1)) \<and>
            vis = filter (\<lambda>d. x0 \<le> date d \<and> date d < x1) a \<and>
            ((\<forall>d \<in> set a. x1 \<le> date d) \<or> (\<forall>d \<in> set a. date d < x0) \<longrightarrow> vis = []) \<and>
            ((\<forall>d \<in> set a. x0 \<le> date d \<and> date d < x1) \<longrightarrow> vis = a)"
proof -
  define i0 where "i0 = bisector_left a (Some x0) 0"
  define i1 where "i1 = bisector_left a (Some x1) i0"
  define vis where "vis = visibleSlice a (Some x0) (Some x1)"
  have s0: "i0 \<le> length a" "\<forall>j. j < i0 \<longrightarrow> date (a ! j) < x0"
    "\<forall>j. i0 \<le> j \<and> j < length a \<longrightarrow> x0 \<le> date (a ! j)"
    using bisector_left_spec [OF srt, of 0 x0] by (simp_all add: i0_def)
  have s1: "i0 \<le> i1" "i1 \<le> length a" "\<forall>j. i0 \<le> j \<and> j < i1 \<longrightarrow> date (a ! j) < x1"
    "\<forall>j. i1 \<le> j \<and> j < length a \<longrightarrow> x1 \<le> date (a ! j)"
    using bisector_left_spec [OF srt s0(1), of x1] by (simp_all add: i1_def)
  have v: "vis = slice a i0 i1"
    by (simp add: vis_def visibleSlice_def i0_def i1_def Let_def)
  have iff: "\<forall>j < length a. (x0 \<le> date (a ! j) \<and> date (a ! j) < x1) \<longleftrightarrow> i0 \<le> j \<and> j < i1"
    using s0 s1 by (metis linorder_not_less)
  have f: "vis = filter (\<lambda>d. x0 \<le> date d \<and> date d < x1) a"
    unfolding v slice_def
    using filter_segment [OF s1(1) s1(2), of "\<lambda>d. x0 \<le> date d \<and> date d < x1"] iff by simp
  have e: "vis = []" if "(\<forall>d \<in> set a. x1 \<le> date d) \<or> (\<forall>d \<in> set a. date d < x0)"
    unfolding f using that by (auto simp: filter_empty_conv)
  have w: "vis = a" if "\<forall>d \<in> set a. x0 \<le> date d \<and> date d < x1"
    unfolding f using that by (simp add: filter_id_conv)
  have "vis = slice a i0 i1 \<and> i0 \<le> i1 \<and> i1 \<le> length a \<and>
        (\<forall>j < i0. date (a ! j) < x0) \<and>
        (i0 < length a \<longrightarrow> x0 \<le> date (a ! i0)) \<and>
        (\<forall>j. i0 \<le> j \<and> j < i1 \<longrightarrow> date (a ! j) < x1) \<and>
        (i1 < length a \<longrightarrow> x1 \<le> date (a ! i1)) \<and>
        vis = filter (\<lambda>d. x0 \<le> date d \<and> date d < x1) a \<and>
        ((\<forall>d \<in> set a. x1 \<le> date d) \<or> (\<forall>d \<in> set a. date d < x0) \<longrightarrow> vis = []) \<and>
        ((\<forall>d \<in> set a. x0 \<le> date d \<and> date d < x1) \<longrightarrow> vis = a)"
    using v s0 s1 f e w by blast
  then show ?thesis
    unfolding i0_def i1_def vis_def Let_def .
qed

lemma example_xScale:
  "xScale example_chart = Some \<lparr>domain0 = 0, domain1 = 172800000, range0 = 32, range1 = 920\<rparr>"
  by (simp add: xScale_def baseXScale_def rescaleX_def invertX_def scale_invert_def bimap_def
      normalize_d3_def interpolateNumber_def toDate_def extent_def example_chart_def
      example_data_def zoomIdentity_def margin_left_def margin_right_def)

theorem visibleSlice_bisection_witness:
  "sorted (map date example_data) \<and>
   visibleSlice example_data (Some 0) (Some 172800001) = example_data \<and>
   visibleSlice example_data (Some 1) (Some 172800000) = [\<lparr>date = 86400000, val = 70\<rparr>] \<and>
   visibleSlice example_data (Some 172800001) (Some 172800002) = []"
proof -
  have s: "sorted (map date example_data)" by (simp add: example_data_def)
  have f: "visibleSlice example_data (Some x0) (Some x1) =
             filter (\<lambda>d. x0 \<le> date d \<and> date d < x1) example_data" for x0 x1
    using visibleSlice_bisection [OF s, of x0 x1] unfolding Let_def by blast
  show ?thesis
    using s by (simp add: f) (simp add: example_data_def)
qed

text \<open>
  With the identity transform the window is the extent of the dates, from 0 to
  172800000, and the slice stops before the last point.
\<close>

theorem visibleData_full_window_counterexample:
  "visibleWindow (xScale example_chart) = (Some 0, Some 172800000) \<and>
   visibleData example_chart = [\<lparr>date = 0, val = 50\<rparr>, \<lparr>date = 86400000, val = 70\<rparr>] \<and>
   visibleData example_chart \<noteq> data example_chart"
proof -
  have b0: "bisector_left example_data (Some 0) 0 = 0"
    by (simp add: bisector_left_def bisect_loop.simps example_data_def)
  have b1: "bisector_left example_data (Some 172800000) 0 = 2"
    by (simp add: bisector_left_def bisect_loop.simps example_data_def)
  have d: "data example_chart = example_data" by (simp add: example_chart_def)
  show ?thesis
    by (simp add: visibleData_def visibleWindow_def example_xScale visibleSlice_def slice_def
        b0 b1 d Let_def) (simp add: example_data_def)
qed

section \<open>The time scale, the round trip and the resize\<close>

lemma bimap_linear:
  "d0 \<noteq> d1 \<Longrightarrow> bimap d0 d1 r0 r1 x = r0 + (x - d0) / (d1 - d0) * (r1 - r0)"
proof -
  assume ne: "d0 \<noteq> d1"
  define e where "e = d1 - d0"
  define u where "u = (x - d0) / e"
  have e: "e \<noteq> 0" and d1: "d1 = d0 + e" using ne by (simp_all add: e_def)
  have lin: "p * (1 - t) + q * t = p + t * (q - p)" for p q t :: real
    by (simp add: algebra_simps)
  have h: "(x - (d0 + e)) / (- e) = 1 - u"
    using e by (simp add: u_def field_simps)
  have a: "r0 * (1 - u) + r1 * u = r0 + u * (r1 - r0)"
    by (rule lin)
  have b: "r1 * (1 - (1 - u)) + r0 * (1 - u) = r0 + u * (r1 - r0)"
    by (simp add: algebra_simps)
  show ?thesis
    using e a b h by (simp add: bimap_def interpolateNumber_def normalize_d3_def d1 u_def)
qed

lemma toDate_of_int: "toDate (real_of_int d) = d"
  by (simp add: toDate_def)

lemma toDate_near: "\<bar>real_of_int (toDate v) - v\<bar> < 1"
  by (auto simp: toDate_def abs_if) linarith+

lemma bimap_inverse:
  assumes "d0 \<noteq> d1" and "r0 \<noteq> r1"
  shows "bimap r0 r1 d0 d1 (bimap d0 d1 r0 r1 x) = x"
proof -
  have "d1 - d0 \<noteq> 0" "r1 - r0 \<noteq> 0" using assms by simp_all
  then show ?thesis
    using assms by (simp add: bimap_linear)
qed

lemma invertX_setBrush:
  assumes "x0 \<noteq> x1" and "margin_left + margin_right < width s"
  shows "invertX (zoomTransform (setBrush x0 x1 s)) margin_left = Some (min x0 x1)"
    and "invertX (zoomTransform (setBrush x0 x1 s)) (width s - margin_right) = Some (max x0 x1)"
proof -
  define W where "W = width s - margin_left - margin_right"
  define sp where "sp = \<bar>x1 - x0\<bar>"
  have W: "0 < W" using assms(2) by (simp add: W_def)
  have sp: "0 < sp" using assms(1) by (simp add: sp_def)
  have k: "W / sp \<noteq> 0" using W sp by simp
  have t: "zoomTransform (setBrush x0 x1 s) =
             \<lparr>zk = W / sp, zx = margin_left - min x0 x1 * (W / sp), zy = 0\<rparr>"
    using assms(1) by (simp add: setBrush_transform W_def sp_def)
  show "invertX (zoomTransform (setBrush x0 x1 s)) margin_left = Some (min x0 x1)"
    using k by (simp add: t invertX_def)
  have "(width s - margin_right - (margin_left - min x0 x1 * (W / sp))) / (W / sp)
          = (W + min x0 x1 * (W / sp)) / (W / sp)"
    by (simp add: W_def algebra_simps)
  also have "\<dots> = sp + min x0 x1"
    using W sp by (simp add: field_simps)
  also have "\<dots> = max x0 x1"
    by (simp add: sp_def min_def max_def)
  finally show "invertX (zoomTransform (setBrush x0 x1 s)) (width s - margin_right) = Some (max x0 x1)"
    using k by (simp add: t invertX_def)
qed

lemma baseXScale_Some:
  "extent (map date (data s)) = Some (D0, D1) \<Longrightarrow>
     baseXScale s = Some \<lparr>domain0 = D0, domain1 = D1, range0 = margin_left,
                           range1 = width s - margin_right\<rparr>"
  by (simp add: baseXScale_def)

lemma xScale_setBrush:
  assumes "extent (map date (data s)) = Some (D0, D1)"
    and "x0 \<noteq> x1" and "margin_left + margin_right < width s"
  shows "xScale (setBrush x0 x1 s) =
           Some \<lparr>domain0 = toDate (bimap margin_left (width s - margin_right)
                                      (real_of_int D0) (real_of_int D1) (min x0 x1)),
                 domain1 = toDate (bimap margin_left (width s - margin_right)
                                      (real_of_int D0) (real_of_int D1) (max x0 x1)),
                 range0 = margin_left, range1 = width s - margin_right\<rparr>"
proof -
  have b: "baseXScale (setBrush x0 x1 s) =
             Some \<lparr>domain0 = D0, domain1 = D1, range0 = margin_left,
                   range1 = width s - margin_right\<rparr>"
    using assms(1) by (simp add: baseXScale_def setBrush_fields)
  show ?thesis
    by (simp add: xScale_def b rescaleX_def invertX_setBrush [OF assms(2,3)] scale_invert_def)
qed

lemma bimap_diff:
  assumes "d0 \<noteq> d1"
  shows "bimap d0 d1 r0 r1 a - bimap d0 d1 r0 r1 b = (a - b) * ((r1 - r0) / (d1 - d0))"
proof -
  define c where "c = (r1 - r0) / (d1 - d0)"
  have m: "(x - d0) / (d1 - d0) * (r1 - r0) = (x - d0) * c" for x
    by (simp add: c_def)
  show ?thesis
    unfolding bimap_linear [OF assms] m c_def [symmetric] by (simp add: algebra_simps)
qed

lemma round_trip_near:
  assumes d: "d0 < d1" and r: "r0 < r1" and res: "r1 - r0 \<le> d1 - d0"
  shows "\<bar>bimap d0 d1 r0 r1 (real_of_int (toDate (bimap r0 r1 d0 d1 y))) - y\<bar> < 1"
proof -
  define v where "v = bimap r0 r1 d0 d1 y"
  define c where "c = (r1 - r0) / (d1 - d0)"
  have c: "0 < c" "c \<le> 1" using d r res by (simp_all add: c_def)
  have y: "y = bimap d0 d1 r0 r1 v"
    using d r by (simp add: v_def bimap_inverse)
  have "bimap d0 d1 r0 r1 (real_of_int (toDate v)) - bimap d0 d1 r0 r1 v
          = (real_of_int (toDate v) - v) * c"
    using d by (simp add: bimap_diff c_def)
  then have "\<bar>bimap d0 d1 r0 r1 (real_of_int (toDate v)) - y\<bar> = \<bar>real_of_int (toDate v) - v\<bar> * c"
    using c y by (simp add: abs_mult)
  also have "\<dots> \<le> \<bar>real_of_int (toDate v) - v\<bar> * 1"
    using c by (intro mult_left_mono) simp_all
  also have "\<dots> < 1" using toDate_near [of v] by simp
  finally show ?thesis by (simp add: v_def)
qed

text \<open>
  C1, as the code has it. On a dataset with two distinct dates, laid out with a
  positive plot width of at most one pixel per millisecond of the dataset's time span,
  \<^verbatim>\<open>setBrush(x0, x1)\<close> with \<open>x0 \<noteq> x1\<close> publishes the transform
  \<open>k = plotWidth / |x1 - x0|\<close>, \<open>tx = marginLeft - min x0 x1 * k\<close>, and
  \<^verbatim>\<open>syncZoomWithBrush\<close> then maps the endpoints of the rescaled time domain back through
  the base scale to within one pixel of \<open>(min x0 x1, max x0 x1)\<close>.
\<close>

theorem brush_round_trip:
  assumes ext: "extent (map date (data s)) = Some (D0, D1)" and dd: "D0 < D1"
    and w: "margin_left + margin_right < width s"
    and res: "width s - margin_left - margin_right \<le> real_of_int (D1 - D0)"
    and ne: "x0 \<noteq> x1"
  shows "zoomTransform (setBrush x0 x1 s) =
           \<lparr>zk = (width s - margin_left - margin_right) / \<bar>x1 - x0\<bar>,
            zx = margin_left - min x0 x1 * ((width s - margin_left - margin_right) / \<bar>x1 - x0\<bar>),
            zy = 0\<rparr> \<and>
         (\<exists>s'. syncZoomWithBrush (setBrush x0 x1 s) = Some s' \<and>
               \<bar>bx0 s' - min x0 x1\<bar> < 1 \<and> \<bar>bx1 s' - max x0 x1\<bar> < 1)"
proof -
  let ?s = "setBrush x0 x1 s"
  let ?r0 = "margin_left" and ?r1 = "width s - margin_right"
  let ?inv = "\<lambda>y. toDate (bimap ?r0 ?r1 (real_of_int D0) (real_of_int D1) y)"
  have b: "baseXScale ?s =
             Some \<lparr>domain0 = D0, domain1 = D1, range0 = ?r0, range1 = ?r1\<rparr>"
    using ext by (simp add: baseXScale_def setBrush_fields)
  have x: "xScale ?s =
             Some \<lparr>domain0 = ?inv (min x0 x1), domain1 = ?inv (max x0 x1),
                   range0 = ?r0, range1 = ?r1\<rparr>"
    by (rule xScale_setBrush [OF ext ne w])
  have sy: "syncZoomWithBrush ?s =
              Some (?s\<lparr>bx0 := bimap (real_of_int D0) (real_of_int D1) ?r0 ?r1
                                  (real_of_int (?inv (min x0 x1))),
                         bx1 := bimap (real_of_int D0) (real_of_int D1) ?r0 ?r1
                                  (real_of_int (?inv (max x0 x1)))\<rparr>)"
    by (simp add: syncZoomWithBrush_def b x scale_apply_def)
  have d: "real_of_int D0 < real_of_int D1" using dd by simp
  have r: "?r0 < ?r1" using w by simp
  have rs: "?r1 - ?r0 \<le> real_of_int D1 - real_of_int D0" using res by simp
  have n0: "\<bar>bimap (real_of_int D0) (real_of_int D1) ?r0 ?r1 (real_of_int (?inv (min x0 x1)))
              - min x0 x1\<bar> < 1"
    by (rule round_trip_near [OF d r rs])
  have n1: "\<bar>bimap (real_of_int D0) (real_of_int D1) ?r0 ?r1 (real_of_int (?inv (max x0 x1)))
              - max x0 x1\<bar> < 1"
    by (rule round_trip_near [OF d r rs])
  show ?thesis
    using setBrush_transform [OF ne, of s] sy n0 n1 by simp
qed

lemma example_extent: "extent (map date (data example_chart)) = Some (0, 172800000)"
  by (simp add: extent_def example_chart_def example_data_def)

theorem brush_round_trip_witness:
  "\<exists>s'. syncZoomWithBrush (setBrush 100 200 example_chart) = Some s' \<and>
        \<bar>bx0 s' - 100\<bar> < 1 \<and> \<bar>bx1 s' - 200\<bar> < 1"
  using brush_round_trip [OF example_extent, of 100 200]
  by (simp add: example_chart_def margin_left_def margin_right_def)

lemma fine_extent: "extent (map date (data fine_chart)) = Some (0, 10)"
  by (simp add: extent_def fine_chart_def example_chart_def)

text \<open>
  Two points 10 milliseconds apart on a plot 888 pixels wide: the endpoints of the
  rescaled domain are truncated to the dates 0 and 1, and the selection \<open>(100, 200)\<close>
  comes back as \<open>(32, 120.8)\<close>.
\<close>

theorem brush_round_trip_counterexample:
  "syncZoomWithBrush (setBrush 100 200 fine_chart) =
     Some ((setBrush 100 200 fine_chart)\<lparr>bx0 := 32, bx1 := 604 / 5\<rparr>) \<and>
   \<not> \<bar>32 - min 100 200\<bar> < (1::real)"
proof -
  have w: "width fine_chart = 928" by (simp add: fine_chart_def example_chart_def)
  have b: "baseXScale (setBrush 100 200 fine_chart) =
             Some \<lparr>domain0 = 0, domain1 = 10, range0 = 32, range1 = 920\<rparr>"
    using fine_extent by (simp add: baseXScale_def setBrush_fields w margin_left_def margin_right_def)
  have x: "xScale (setBrush 100 200 fine_chart) =
             Some \<lparr>domain0 = 0, domain1 = 1, range0 = 32, range1 = 920\<rparr>"
    by (simp add: xScale_def b rescaleX_def setBrush_transform w invertX_def scale_invert_def
        bimap_def normalize_d3_def interpolateNumber_def toDate_def margin_left_def margin_right_def)
  show ?thesis
    by (simp add: syncZoomWithBrush_def b x scale_apply_def bimap_def normalize_d3_def
        interpolateNumber_def)
qed

lemma bimap_strict_mono:
  assumes "d0 < d1" and "r0 < r1" and "a < b"
  shows "bimap d0 d1 r0 r1 a < bimap d0 d1 r0 r1 b"
proof -
  have c: "0 < (r1 - r0) / (d1 - d0)" using assms by simp
  have "a - b < 0" using assms(3) by simp
  then have "(a - b) * ((r1 - r0) / (d1 - d0)) < 0"
    using c by (rule mult_neg_pos)
  then show ?thesis
    using bimap_diff [of d0 d1 r0 r1 a b] assms(1) by simp
qed

lemma bimap_single_domain: "bimap d d r0 r1 a = bimap d d r0 r1 b"
  by (simp add: bimap_def normalize_d3_def)

lemma bimap_single_target: "bimap r0 r1 d d p = d"
proof -
  have "d * (1 - t) + d * t = d" for t :: real by (simp add: algebra_simps)
  then show ?thesis by (simp add: bimap_def interpolateNumber_def)
qed

lemma extent_le:
  assumes "extent vs = Some (a, b)"
  shows "a \<le> b"
proof -
  from assms have ne: "vs \<noteq> []" by (auto simp: extent_empty)
  with assms have "a = Min (set vs)" "b = Max (set vs)" by (simp_all add: extent_nonempty)
  with ne show ?thesis by (simp add: Min_le_iff)
qed

lemma toDate_within:
  assumes "\<bar>v - real_of_int d\<bar> < 1"
  shows "\<bar>toDate v - d\<bar> \<le> 1"
proof -
  have "\<bar>real_of_int (toDate v) - v\<bar> < 1" by (rule toDate_near)
  with assms have "\<bar>real_of_int (toDate v) - real_of_int d\<bar> < 2" by linarith
  then have "\<bar>real_of_int (toDate v - d)\<bar> < 2" by simp
  then have "\<bar>toDate v - d\<bar> < 2" by linarith
  then show ?thesis by simp
qed

lemma xScale_single_date:
  assumes "extent (map date (data s)) = Some (D, D)" and "xScale s = Some sc"
  shows "domain0 sc = D" and "domain1 sc = D"
  using assms
  by (auto simp: xScale_def baseXScale_def rescaleX_def scale_invert_def bimap_single_target
      toDate_of_int split: option.splits if_splits)

lemma canvasSize_floor:
  assumes "0 \<le> v" and "v < 2147483648"
  shows "canvasSize v dflt = \<lfloor>v\<rfloor>"
proof -
  have a: "0 \<le> \<lfloor>v\<rfloor>" using assms(1) by simp
  have b: "\<lfloor>v\<rfloor> < 2147483648" using assms(2) by (simp add: floor_less_iff)
  have "toUnsignedLong v = \<lfloor>v\<rfloor>"
    using assms(1) a b by (simp add: toUnsignedLong_def)
  then show ?thesis using b by (simp add: canvasSize_def)
qed

text \<open>
  C3, as the code has it. On a dataset that is not empty, a resize to a width above
  \<open>marginLeft + marginRight\<close>, with the visible time domain \<open>[d0, d1]\<close>, \<open>d0 < d1\<close>,
  captured before it (on a dataset of a single date, where the domain is that date: with
  a scale factor that is not 0), ends after the queued \<^verbatim>\<open>setBrush\<close> with a zoomed time
  scale over the new pixel range whose domain is \<open>[d0, d1]\<close> to within one millisecond
  at each end: the numbers handed to \<^verbatim>\<open>new Date\<close> are \<open>d0\<close> and \<open>d1\<close> in exact arithmetic,
  and a number within a millisecond of a date truncates to within a millisecond of it.
  Both canvases take the integer part of the new width; the chart canvas takes the
  integer part of \<open>max 0 (height - 64)\<close> as its height, the overview canvas 40.
\<close>

theorem resize_preserves_domain:
  assumes ext: "extent (map date (data s)) = Some (D0, D1)"
    and xs: "xScale s = Some sc"
    and vis: "D0 < D1 \<longrightarrow> domain0 sc < domain1 sc"
    and one: "D0 = D1 \<longrightarrow> zk (zoomTransform s) \<noteq> 0"
    and w: "margin_left + margin_right < w"
  shows "\<exists>s' sc'. observeHostResize w h s = Some s' \<and> xScale s' = Some sc' \<and>
           range0 sc' = margin_left \<and> range1 sc' = w - margin_right \<and>
           \<bar>domain0 sc' - domain0 sc\<bar> \<le> 1 \<and> \<bar>domain1 sc' - domain1 sc\<bar> \<le> 1 \<and>
           data s' = data s \<and> width s' = w \<and> heightHost s' = h \<and>
           (w < 2147483648 \<longrightarrow> chart_width s' = \<lfloor>w\<rfloor> \<and> dz_width s' = \<lfloor>w\<rfloor>) \<and>
           (h - dzHeight - 16 - 8 < 2147483648 \<longrightarrow>
              chart_height s' = \<lfloor>max 0 (h - dzHeight - 16 - 8)\<rfloor>) \<and>
           dz_height s' = 40"
proof -
  define s2 where "s2 = s\<lparr>width := w, heightHost := h, chart_width := canvasSize w 300,
      chart_height := canvasSize (chartHeight (s\<lparr>width := w, heightHost := h\<rparr>)) 150,
      dz_width := canvasSize w 300, dz_height := canvasSize dzHeight 150\<rparr>"
  define b where "b = \<lparr>domain0 = D0, domain1 = D1, range0 = margin_left, range1 = w - margin_right\<rparr>"
  define nx0 where "nx0 = scale_apply b (domain0 sc)"
  define nx1 where "nx1 = scale_apply b (domain1 sc)"
  have f2: "data s2 = data s" "width s2 = w" "heightHost s2 = h"
    "chart_width s2 = canvasSize w 300" "dz_width s2 = canvasSize w 300"
    "chart_height s2 = canvasSize (max 0 (h - dzHeight - 16 - 8)) 150"
    "dz_height s2 = canvasSize dzHeight 150" "zoomTransform s2 = zoomTransform s"
    by (simp_all add: s2_def chartHeight_def)
  have cw: "canvasSize w 300 = \<lfloor>w\<rfloor>" if "w < 2147483648"
    using w that by (intro canvasSize_floor) (simp_all add: margin_left_def margin_right_def)
  have ch: "canvasSize (max 0 (h - dzHeight - 16 - 8)) 150 = \<lfloor>max 0 (h - dzHeight - 16 - 8)\<rfloor>"
    if "h - dzHeight - 16 - 8 < 2147483648"
    using that by (intro canvasSize_floor) simp_all
  have cd: "canvasSize dzHeight 150 = 40"
    by (simp add: canvasSize_floor dzHeight_def)
  have ext2: "extent (map date (data s2)) = Some (D0, D1)" using ext by (simp add: f2)
  have w2: "margin_left + margin_right < width s2" using w by (simp add: f2)
  have b2: "baseXScale s2 = Some b"
    using ext2 by (simp add: baseXScale_def b_def f2)
  have res: "observeHostResize w h s = Some (setBrush nx0 nx1 s2)"
    by (simp add: observeHostResize_def xs Let_def s2_def [symmetric] b2 nx0_def nx1_def)
  have r: "margin_left < w - margin_right" using w by simp
  have dle: "D0 \<le> D1" using ext by (rule extent_le)
  have "\<exists>sc'. xScale (setBrush nx0 nx1 s2) = Some sc' \<and>
           range0 sc' = margin_left \<and> range1 sc' = w - margin_right \<and>
           \<bar>domain0 sc' - domain0 sc\<bar> \<le> 1 \<and> \<bar>domain1 sc' - domain1 sc\<bar> \<le> 1"
  proof (cases "D0 < D1")
    case True
    then have d: "real_of_int D0 < real_of_int D1" by simp
    from True vis have lt0: "domain0 sc < domain1 sc" by simp
    have lt: "nx0 < nx1"
      unfolding nx0_def nx1_def scale_apply_def b_def using lt0
      by (simp add: bimap_strict_mono [OF d r])
    then have ne: "nx0 \<noteq> nx1" and mn: "min nx0 nx1 = nx0" and mx: "max nx0 nx1 = nx1"
      by simp_all
    have v0: "bimap margin_left (w - margin_right) (real_of_int D0) (real_of_int D1) nx0
                = real_of_int (domain0 sc)"
      using d r by (simp add: nx0_def scale_apply_def b_def bimap_inverse)
    have v1: "bimap margin_left (w - margin_right) (real_of_int D0) (real_of_int D1) nx1
                = real_of_int (domain1 sc)"
      using d r by (simp add: nx1_def scale_apply_def b_def bimap_inverse)
    have i0: "\<bar>toDate (bimap margin_left (w - margin_right) (real_of_int D0) (real_of_int D1) nx0)
                - domain0 sc\<bar> \<le> 1"
      by (rule toDate_within) (simp add: v0)
    have i1: "\<bar>toDate (bimap margin_left (w - margin_right) (real_of_int D0) (real_of_int D1) nx1)
                - domain1 sc\<bar> \<le> 1"
      by (rule toDate_within) (simp add: v1)
    show ?thesis
      using xScale_setBrush [OF ext2 ne w2] i0 i1 by (simp add: mn mx f2)
  next
    case False
    with dle have eq: "D1 = D0" by simp
    with one have k: "zk (zoomTransform s) \<noteq> 0" by simp
    have same: "nx0 = nx1"
      unfolding nx0_def nx1_def scale_apply_def b_def eq
      by (simp add: bimap_single_domain [of _ _ _ "real_of_int (domain0 sc)" "real_of_int (domain1 sc)"])
    have sb: "setBrush nx0 nx1 s2 = s2\<lparr>bx0 := nx0, bx1 := nx1\<rparr>"
      using same by (simp add: setBrush_def)
    have ext0: "extent (map date (data s)) = Some (D0, D0)" using ext eq by simp
    have dom: "domain0 sc = D0" "domain1 sc = D0"
      using xScale_single_date [OF ext0 xs] by simp_all
    have "xScale (setBrush nx0 nx1 s2) =
            Some \<lparr>domain0 = D0, domain1 = D0, range0 = margin_left, range1 = w - margin_right\<rparr>"
      using k ext2
      by (simp add: sb xScale_def baseXScale_def f2 eq rescaleX_def invertX_def scale_invert_def
          bimap_single_target toDate_of_int)
    then show ?thesis by (simp add: dom)
  qed
  then show ?thesis
    using res cw ch cd by (auto simp: setBrush_fields f2)
qed

lemma zoomed_xScale:
  "xScale (setBrush 254 476 example_chart) =
     Some \<lparr>domain0 = 43200000, domain1 = 86400000, range0 = 32, range1 = 920\<rparr>"
  using xScale_setBrush [OF example_extent, of 254 476]
  by (simp add: example_chart_def margin_left_def margin_right_def bimap_def normalize_d3_def
      interpolateNumber_def toDate_def)

lemma single_extent:
  "extent (map date (data single_chart)) = Some (1704067200000, 1704067200000)"
  by (simp add: extent_def single_chart_def example_chart_def)

lemma single_xScale:
  "xScale single_chart =
     Some \<lparr>domain0 = 1704067200000, domain1 = 1704067200000, range0 = 32, range1 = 920\<rparr>"
  using single_extent
  by (simp add: xScale_def baseXScale_def rescaleX_def invertX_def scale_invert_def
      bimap_single_target toDate_def single_chart_def example_chart_def zoomIdentity_def
      margin_left_def margin_right_def)

theorem resize_preserves_domain_witness:
  "(\<exists>s' sc'. observeHostResize (801 / 2) (601 / 2) (setBrush 254 476 example_chart) = Some s' \<and>
        xScale s' = Some sc' \<and> range0 sc' = 32 \<and> range1 sc' = 785 / 2 \<and>
        \<bar>domain0 sc' - 43200000\<bar> \<le> 1 \<and> \<bar>domain1 sc' - 86400000\<bar> \<le> 1 \<and>
        chart_width s' = 400 \<and> dz_width s' = 400 \<and> chart_height s' = 236 \<and> dz_height s' = 40) \<and>
   (\<exists>s' sc'. observeHostResize 400 300 single_chart = Some s' \<and>
        xScale s' = Some sc' \<and> range0 sc' = 32 \<and> range1 sc' = 392 \<and>
        \<bar>domain0 sc' - 1704067200000\<bar> \<le> 1 \<and> \<bar>domain1 sc' - 1704067200000\<bar> \<le> 1 \<and>
        chart_width s' = 400 \<and> dz_width s' = 400 \<and> chart_height s' = 236 \<and> dz_height s' = 40)"
proof -
  have e: "extent (map date (data (setBrush 254 476 example_chart))) = Some (0, 172800000)"
    using example_extent by (simp add: setBrush_fields)
  have z: "zk (zoomTransform single_chart) \<noteq> 0"
    by (simp add: single_chart_def example_chart_def zoomIdentity_def)
  have a: "\<exists>s' sc'. observeHostResize (801 / 2) (601 / 2) (setBrush 254 476 example_chart) = Some s' \<and>
        xScale s' = Some sc' \<and> range0 sc' = 32 \<and> range1 sc' = 785 / 2 \<and>
        \<bar>domain0 sc' - 43200000\<bar> \<le> 1 \<and> \<bar>domain1 sc' - 86400000\<bar> \<le> 1 \<and>
        chart_width s' = 400 \<and> dz_width s' = 400 \<and> chart_height s' = 236 \<and> dz_height s' = 40"
    using resize_preserves_domain [OF e zoomed_xScale, of "801 / 2" "601 / 2"]
    by (auto simp: margin_left_def margin_right_def dzHeight_def)
  have b: "\<exists>s' sc'. observeHostResize 400 300 single_chart = Some s' \<and>
        xScale s' = Some sc' \<and> range0 sc' = 32 \<and> range1 sc' = 392 \<and>
        \<bar>domain0 sc' - 1704067200000\<bar> \<le> 1 \<and> \<bar>domain1 sc' - 1704067200000\<bar> \<le> 1 \<and>
        chart_width s' = 400 \<and> dz_width s' = 400 \<and> chart_height s' = 236 \<and> dz_height s' = 40"
    using resize_preserves_domain [OF single_extent single_xScale, of 400 300] z
    by (auto simp: margin_left_def margin_right_def dzHeight_def)
  show ?thesis using a b by blast
qed

text \<open>
  A resize to a container of width 0 (pixel range from 32 down to -8) leaves the domain
  reversed: from 172800000 to 0.
\<close>

theorem resize_zero_width_counterexample:
  "xScale example_chart =
     Some \<lparr>domain0 = 0, domain1 = 172800000, range0 = 32, range1 = 920\<rparr> \<and>
   observeHostResize 0 0 example_chart =
     Some (setBrush 32 (- 8)
       (example_chart\<lparr>width := 0, heightHost := 0, chart_width := 0, chart_height := 0,
          dz_width := 0, dz_height := 40\<rparr>)) \<and>
   xScale (setBrush 32 (- 8)
       (example_chart\<lparr>width := 0, heightHost := 0, chart_width := 0, chart_height := 0,
          dz_width := 0, dz_height := 40\<rparr>)) =
     Some \<lparr>domain0 = 172800000, domain1 = 0, range0 = 32, range1 = - 8\<rparr>"
proof -
  let ?s2 = "example_chart\<lparr>width := 0, heightHost := 0, chart_width := 0, chart_height := 0,
          dz_width := 0, dz_height := 40\<rparr>"
  note x = example_xScale
  have c: "canvasSize 0 300 = 0" "canvasSize 0 150 = 0" "canvasSize 40 150 = 40"
    by (simp_all add: canvasSize_def toUnsignedLong_def)
  have b: "baseXScale ?s2 = Some \<lparr>domain0 = 0, domain1 = 172800000, range0 = 32, range1 = - 8\<rparr>"
    by (simp add: baseXScale_def extent_def example_chart_def example_data_def
        margin_left_def margin_right_def)
  have r: "observeHostResize 0 0 example_chart = Some (setBrush 32 (- 8) ?s2)"
    by (simp add: observeHostResize_def x Let_def chartHeight_def dzHeight_def c b scale_apply_def
        bimap_def normalize_d3_def interpolateNumber_def)
  have b': "baseXScale (setBrush 32 (- 8) ?s2) =
              Some \<lparr>domain0 = 0, domain1 = 172800000, range0 = 32, range1 = - 8\<rparr>"
    by (simp add: baseXScale_def setBrush_fields extent_def example_chart_def example_data_def
        margin_left_def margin_right_def)
  have y: "xScale (setBrush 32 (- 8) ?s2) =
     Some \<lparr>domain0 = 172800000, domain1 = 0, range0 = 32, range1 = - 8\<rparr>"
    by (simp add: xScale_def b' rescaleX_def setBrush_transform invertX_def scale_invert_def
        bimap_def normalize_d3_def interpolateNumber_def toDate_def margin_left_def margin_right_def)
  show ?thesis using x r y by simp
qed

end
